theory Spec2Isabelle
  imports Complex_Main "HOL-Library.AList" "HOL-Library.Sublist"
begin

section \<open>Data model\<close>

text \<open>
  The application (\<^verbatim>\<open>streamlit_app.py\<close>) moves pandas tables between an upload, the
  \<^verbatim>\<open>lifetimes\<close> library and a zip archive. A table cell is a missing value
  (\<^verbatim>\<open>NaN\<close>, \<^verbatim>\<open>NaT\<close>), a string, a timestamp or a number. Timestamps are kept at
  the granularity of days (a day number); finite floats are kept as reals, since the
  code only copies, compares and truncates them.
\<close>

datatype cell = NaN | Str string | Timestamp int | Num real

text \<open>
  A \<^verbatim>\<open>DataFrame\<close> is column-major: an index (with an optional name) and an ordered
  dictionary from column names to columns.
\<close>

record dataframe =
  index_name :: "string option"
  index :: "cell list"
  cols :: "(string \<times> cell list) list"

text \<open>Exceptions are values; \<open>str\<close> is Python's \<^verbatim>\<open>str(e)\<close>.\<close>

datatype exn = ValueError string | KeyError string | LibraryError string

fun str :: "exn \<Rightarrow> string" where
  "str (ValueError m) = m"
| "str (KeyError k) = [CHR 0x27] @ k @ [CHR 0x27]"
| "str (LibraryError m) = m"

definition columns :: "dataframe \<Rightarrow> string list" where
  "columns df = map fst (cols df)"

text \<open>\<^verbatim>\<open>df[c]\<close> raises \<^verbatim>\<open>KeyError\<close> on an absent column.\<close>

definition getitem :: "dataframe \<Rightarrow> string \<Rightarrow> exn + cell list" where
  "getitem df c = (case map_of (cols df) c of None \<Rightarrow> Inl (KeyError c) | Some xs \<Rightarrow> Inr xs)"

text \<open>\<^verbatim>\<open>df[c] = xs\<close> replaces the column in place or appends it as the last one.\<close>

definition setitem :: "dataframe \<Rightarrow> string \<Rightarrow> cell list \<Rightarrow> dataframe" where
  "setitem df c xs = df\<lparr>cols := AList.update c xs (cols df)\<rparr>"

definition isnull :: "cell \<Rightarrow> bool" where
  "isnull c = (c = NaN)"

text \<open>Sequencing of calls that may raise: the first exception ends the computation.\<close>

definition andthen :: "exn + 'a \<Rightarrow> ('a \<Rightarrow> exn + 'b) \<Rightarrow> exn + 'b" where
  "andthen r k = (case r of Inl e \<Rightarrow> Inl e | Inr v \<Rightarrow> k v)"

text \<open>\<^verbatim>\<open>sep.join(xs)\<close>\<close>

fun join :: "string \<Rightarrow> string list \<Rightarrow> string" where
  "join sep [] = []"
| "join sep [x] = x"
| "join sep (x # y # ys) = x @ sep @ join sep (y # ys)"

section \<open>Ingestion: \<^verbatim>\<open>load_and_preprocess_data\<close>\<close>

text \<open>
  \<^verbatim>\<open>pd.to_datetime(column, errors='coerce')\<close>: the parser of pandas is a parameter
  \<open>parse\<close>, giving the day of a cell or nothing; a cell that does not parse becomes
  \<^verbatim>\<open>NaT\<close>.
\<close>

definition to_datetime :: "(cell \<Rightarrow> int option) \<Rightarrow> cell list \<Rightarrow> cell list" where
  "to_datetime parse xs = map (\<lambda>c. case parse c of None \<Rightarrow> NaN | Some d \<Rightarrow> Timestamp d) xs"

text \<open>Keeping the positions of a column that a boolean mask selects.\<close>

definition select :: "bool list \<Rightarrow> 'a list \<Rightarrow> 'a list" where
  "select keep xs = map fst (filter snd (zip xs keep))"

text \<open>
  \<^verbatim>\<open>df.dropna(subset=cs)\<close>: a row stays when none of its cells in the columns \<open>cs\<close>
  is missing; pandas raises \<^verbatim>\<open>KeyError\<close> when a column of \<open>cs\<close> is absent.
\<close>

definition notnull_mask :: "dataframe \<Rightarrow> string list \<Rightarrow> bool list" where
  "notnull_mask df cs =
     foldr (\<lambda>c m. case map_of (cols df) c of
                     None \<Rightarrow> m
                   | Some xs \<Rightarrow> map (\<lambda>(x, b). \<not> isnull x \<and> b) (zip xs m))
           cs (replicate (length (index df)) True)"

definition dropna :: "string list \<Rightarrow> dataframe \<Rightarrow> exn + dataframe" where
  "dropna cs df =
     (case filter (\<lambda>c. c \<notin> set (columns df)) cs of
        m # ms \<Rightarrow> Inl (KeyError (join '', '' (m # ms)))
      | [] \<Rightarrow>
          (let keep = notnull_mask df cs
           in Inr (df\<lparr>index := select keep (index df),
                     cols := map (\<lambda>(c, xs). (c, select keep xs)) (cols df)\<rparr>)))"

definition required_columns :: "string list" where
  "required_columns = [''customer_id'', ''date'']"

definition schema_message :: string where
  "schema_message =
     ''The dataset must contain the following columns: '' @ join '', '' required_columns"

definition date_message :: string where
  "date_message =
     ''Some date values couldn'' @ [CHR 0x27] @
     ''t be parsed. Please ensure all dates are in a valid format.''"

text \<open>
  The body of the \<^verbatim>\<open>try\<close> block. \<open>read_csv\<close> is \<^verbatim>\<open>pd.read_csv\<close>, which returns a
  table or raises.
\<close>

definition load_try ::
  "('f \<Rightarrow> exn + dataframe) \<Rightarrow> (cell \<Rightarrow> int option) \<Rightarrow> 'f \<Rightarrow> exn + dataframe" where
  "load_try read_csv parse file =
     (case read_csv file of
        Inl e \<Rightarrow> Inl e
      | Inr sales_data \<Rightarrow>
          if \<not> list_all (\<lambda>col. col \<in> set (columns sales_data)) required_columns
          then Inl (ValueError schema_message)
          else
            (case getitem sales_data ''date'' of
               Inl e \<Rightarrow> Inl e
             | Inr raw \<Rightarrow>
                 (let sales_data = setitem sales_data ''date'' (to_datetime parse raw)
                  in case getitem sales_data ''date'' of
                       Inl e \<Rightarrow> Inl e
                     | Inr dates \<Rightarrow>
                         if list_ex isnull dates
                         then Inl (ValueError date_message)
                         else dropna [''customer_id'', ''date''] sales_data)))"

text \<open>
  The function returns the cleaned table or \<^verbatim>\<open>None\<close>, together with the messages it
  shows through \<^verbatim>\<open>st.error\<close>: the \<^verbatim>\<open>except Exception\<close> clause turns every exception
  of the body into one message.
\<close>

definition load_and_preprocess_data ::
  "('f \<Rightarrow> exn + dataframe) \<Rightarrow> (cell \<Rightarrow> int option) \<Rightarrow> 'f \<Rightarrow> dataframe option \<times> string list" where
  "load_and_preprocess_data read_csv parse file =
     (case load_try read_csv parse file of
        Inr sales_data \<Rightarrow> (Some sales_data, [])
      | Inl e \<Rightarrow> (None, [''Error loading data: '' @ str e]))"

section \<open>Summarization\<close>

text \<open>Python's order of strings: lexicographic in the code of the characters.\<close>

fun str_le :: "string \<Rightarrow> string \<Rightarrow> bool" where
  "str_le [] ys = True"
| "str_le (x # xs) [] = False"
| "str_le (x # xs) (y # ys) =
     ((of_char x :: nat) < of_char y \<or> (x = y \<and> str_le xs ys))"

text \<open>
  \<^verbatim>\<open>Series.max()\<close> skips missing values and is missing on an empty column; comparing
  values of different kinds is a \<^verbatim>\<open>TypeError\<close>.
\<close>

fun cell_max :: "cell \<Rightarrow> cell \<Rightarrow> exn + cell" where
  "cell_max NaN c = Inr c"
| "cell_max c NaN = Inr c"
| "cell_max (Timestamp a) (Timestamp b) = Inr (Timestamp (max a b))"
| "cell_max (Num a) (Num b) = Inr (Num (max a b))"
| "cell_max (Str a) (Str b) = Inr (Str (if str_le a b then b else a))"
| "cell_max _ _ = Inl (LibraryError ''TypeError'')"

fun series_max_from :: "cell \<Rightarrow> cell list \<Rightarrow> exn + cell" where
  "series_max_from acc [] = Inr acc"
| "series_max_from acc (x # xs) = andthen (cell_max acc x) (\<lambda>acc'. series_max_from acc' xs)"

definition series_max :: "cell list \<Rightarrow> exn + cell" where
  "series_max xs = series_max_from NaN xs"

text \<open>
  Modelled from the spec: \<^verbatim>\<open>summary_data_from_transaction_data\<close> belongs to the
  \<^verbatim>\<open>lifetimes\<close> library and is not part of the sources. The spec describes its result
  as one record per distinct \<^verbatim>\<open>customer_id\<close>, keyed by \<^verbatim>\<open>customer_id\<close>, with
  \<^verbatim>\<open>frequency\<close> the number of the customer's transactions minus one, \<^verbatim>\<open>recency\<close> the
  time between the customer's first and last transaction, and \<^verbatim>\<open>T\<close> the time between
  the customer's first transaction and the observation cutoff, in days. The
  definitions \<open>tx_of\<close>, \<open>transactions\<close>, \<open>dates_of\<close> and \<open>customer_summary\<close> are its parts:
  the transactions are the rows with a date, a customer's dates are those of the
  customer's transactions.
\<close>

fun tx_of :: "cell \<times> cell \<Rightarrow> (cell \<times> int) option" where
  "tx_of (c, Timestamp d) = Some (c, d)"
| "tx_of (c, x) = None"

definition transactions :: "cell list \<Rightarrow> cell list \<Rightarrow> (cell \<times> int) list" where
  "transactions ids dates = List.map_filter tx_of (zip ids dates)"

definition dates_of :: "(cell \<times> int) list \<Rightarrow> cell \<Rightarrow> int list" where
  "dates_of txs c = map snd (filter (\<lambda>t. fst t = c) txs)"

definition customer_summary :: "int list \<Rightarrow> cell \<Rightarrow> cell \<times> cell \<times> cell" where
  "customer_summary ds observation_period_end =
     (case ds of
        [] \<Rightarrow> (NaN, NaN, NaN)
      | d # ds' \<Rightarrow>
          (let d_min = fold min ds' d; d_max = fold max ds' d
           in (Num (real (length ds) - 1),
               Num (of_int (d_max - d_min)),
               (case observation_period_end of
                  Timestamp e \<Rightarrow> Num (of_int (e - d_min))
                | _ \<Rightarrow> NaN))))"

text \<open>
  Modelled from the spec: the summary table of \<^verbatim>\<open>summary_data_from_transaction_data\<close>,
  with the customers as the index and the columns \<^verbatim>\<open>frequency\<close>, \<^verbatim>\<open>recency\<close>, \<^verbatim>\<open>T\<close>.
  By the spec a dataset with zero rows after the cleanup must fail rather than give an
  empty summary, as a failure of the class \<^verbatim>\<open>EmptyDatasetError\<close>: a table without
  transactions raises.
\<close>

definition summary_data_from_transaction_data ::
  "dataframe \<Rightarrow> string \<Rightarrow> string \<Rightarrow> cell \<Rightarrow> exn + dataframe" where
  "summary_data_from_transaction_data df customer_id_col datetime_col observation_period_end =
     andthen (getitem df customer_id_col) (\<lambda>ids.
     andthen (getitem df datetime_col) (\<lambda>dates.
       (let txs = transactions ids dates;
            customers = remdups (map fst txs);
            rs = map (\<lambda>c. customer_summary (dates_of txs c) observation_period_end) customers
        in if txs = []
           then Inl (LibraryError ''EmptyDatasetError'')
           else Inr \<lparr>index_name = Some customer_id_col,
                     index = customers,
                     cols = [(''frequency'', map fst rs),
                             (''recency'', map (\<lambda>r. fst (snd r)) rs),
                             (''T'', map (\<lambda>r. snd (snd r)) rs)]\<rparr>)))"

text \<open>
  The call of \<^verbatim>\<open>main\<close>: the observation cutoff is the maximum of the \<^verbatim>\<open>date\<close>
  column of the cleaned table. The summarization is a parameter, as the library call is.
\<close>

definition transform ::
  "(dataframe \<Rightarrow> string \<Rightarrow> string \<Rightarrow> cell \<Rightarrow> exn + dataframe) \<Rightarrow> dataframe \<Rightarrow> exn + dataframe" where
  "transform summarize sales_data =
     andthen (getitem sales_data ''date'') (\<lambda>dates.
     andthen (series_max dates) (\<lambda>observation_period_end.
       summarize sales_data ''customer_id'' ''date'' observation_period_end))"

text \<open>
  The rows of a summary, each as (customer, frequency, recency, T), and the
  transactions of a table, each as (customer, day).
\<close>

definition column :: "dataframe \<Rightarrow> string \<Rightarrow> cell list" where
  "column df c = (case map_of (cols df) c of None \<Rightarrow> [] | Some xs \<Rightarrow> xs)"

definition summary_records :: "dataframe \<Rightarrow> (cell \<times> cell \<times> cell \<times> cell) list" where
  "summary_records df =
     zip (index df) (zip (column df ''frequency'') (zip (column df ''recency'') (column df ''T'')))"

definition transactions_of :: "dataframe \<Rightarrow> (cell \<times> int) list" where
  "transactions_of df = transactions (column df ''customer_id'') (column df ''date'')"

section \<open>Model fit, prediction and model parameters\<close>

text \<open>
  A \<^verbatim>\<open>pd.Series\<close> of model parameters is a list of labelled values; a label is a name
  or, for a series made from a scalar, a position. The export document is a Python
  dictionary (insertion-ordered, keys unique) whose values are scalars or dictionaries.
\<close>

datatype label = Name string | Pos nat

type_synonym series = "(label \<times> cell) list"

datatype pyobj = Scalar cell | Dict "(label \<times> cell) list"

text \<open>The attribute \<^verbatim>\<open>params_\<close> of the fitter is the field \<open>params\<close>.\<close>

record fitter =
  penalizer_coef :: pyobj
  params :: series

text \<open>\<^verbatim>\<open>Series.to_dict()\<close>: a later value of a repeated label replaces the earlier one.\<close>

definition to_dict :: "series \<Rightarrow> (label \<times> cell) list" where
  "to_dict s = fold (\<lambda>(k, v) d. AList.update k v d) s []"

text \<open>\<^verbatim>\<open>pd.Series(obj)\<close>\<close>

fun Series :: "pyobj \<Rightarrow> series" where
  "Series (Dict kvs) = kvs"
| "Series (Scalar c) = [(Pos 0, c)]"

definition save_model_params :: "fitter \<Rightarrow> (string \<times> pyobj) list" where
  "save_model_params bgf =
     [(''params'', Dict (to_dict (params bgf))),
      (''penalizer_coef'', penalizer_coef bgf)]"

definition load_model_params :: "(string \<times> pyobj) list \<Rightarrow> exn + fitter" where
  "load_model_params params_dict =
     (case map_of params_dict ''penalizer_coef'' of
        None \<Rightarrow> Inl (KeyError ''penalizer_coef'')
      | Some p \<Rightarrow>
          (case map_of params_dict ''params'' of
             None \<Rightarrow> Inl (KeyError ''params'')
           | Some ps \<Rightarrow> Inr \<lparr>penalizer_coef = p, params = Series ps\<rparr>))"

text \<open>
  \<^verbatim>\<open>BetaGeoFitter.fit\<close> is the parameter \<open>fit\<close>: from the regularization coefficient
  and the three columns it gives the fitted parameters or raises.
\<close>

definition train_model ::
  "(pyobj \<Rightarrow> cell list \<Rightarrow> cell list \<Rightarrow> cell list \<Rightarrow> exn + series) \<Rightarrow>
   dataframe \<Rightarrow> pyobj \<Rightarrow> exn + fitter" where
  "train_model fit summary pen =
     andthen (getitem summary ''frequency'') (\<lambda>fs.
     andthen (getitem summary ''recency'') (\<lambda>rs.
     andthen (getitem summary ''T'') (\<lambda>ts.
     andthen (fit pen fs rs ts) (\<lambda>ps.
       Inr \<lparr>penalizer_coef = pen, params = ps\<rparr>))))"

text \<open>
  \<^verbatim>\<open>conditional_expected_number_of_purchases_up_to_time\<close> is the parameter \<open>cef\<close>: a
  function of the model's parameters, the horizon and a customer's frequency, recency
  and T. On columns it is applied row by row.
\<close>

type_synonym expectation = "series \<Rightarrow> cell \<Rightarrow> cell \<Rightarrow> cell \<Rightarrow> cell \<Rightarrow> cell"

definition make_predictions :: "expectation \<Rightarrow> fitter \<Rightarrow> dataframe \<Rightarrow> cell \<Rightarrow> exn + cell list" where
  "make_predictions cef bgf summary time_period =
     andthen (getitem summary ''frequency'') (\<lambda>fs.
     andthen (getitem summary ''recency'') (\<lambda>rs.
     andthen (getitem summary ''T'') (\<lambda>ts.
       Inr (map (\<lambda>(f, r, t). cef (params bgf) time_period f r t) (zip fs (zip rs ts))))))"

section \<open>Reporting and export\<close>

text \<open>
  Python's \<^verbatim>\<open>int(x)\<close> truncates a float towards zero and raises on a missing value
  and on a timestamp. It is applied to the maximum of a summary column, which holds
  floats; reading a numeral from a string is not part of the model, where a string is
  an error.
\<close>

definition int_of_float :: "real \<Rightarrow> int" where
  "int_of_float x = (if 0 \<le> x then \<lfloor>x\<rfloor> else \<lceil>x\<rceil>)"

fun py_int :: "cell \<Rightarrow> exn + int" where
  "py_int (Num x) = Inr (int_of_float x)"
| "py_int NaN = Inl (ValueError ''cannot convert float NaN to integer'')"
| "py_int (Timestamp d) = Inl (LibraryError ''TypeError'')"
| "py_int (Str s) = Inl (ValueError ''invalid literal for int() with base 10'')"

record heat_cell =
  Recency :: int
  Frequency :: int
  Expected_Purchases :: cell

text \<open>The list \<^verbatim>\<open>data\<close> that \<^verbatim>\<open>plot_frequency_recency_heatmap\<close> hands to the chart.\<close>

definition plot_frequency_recency_heatmap ::
  "expectation \<Rightarrow> fitter \<Rightarrow> dataframe \<Rightarrow> exn + heat_cell list" where
  "plot_frequency_recency_heatmap cef bgf summary =
     andthen (getitem summary ''frequency'') (\<lambda>fs.
     andthen (series_max fs) (\<lambda>fm.
     andthen (py_int fm) (\<lambda>fi.
     andthen (getitem summary ''T'') (\<lambda>ts.
     andthen (series_max ts) (\<lambda>tm.
     andthen (py_int tm) (\<lambda>ti.
       (let max_frequency = min fi 50;
            max_recency = min ti 50
        in Inr (concat (map (\<lambda>i. map (\<lambda>j.
                  \<lparr>Recency = i, Frequency = j,
                   Expected_Purchases =
                     cef (params bgf) (Num 30) (Num (of_int j)) (Num (of_int i))
                       (Num (of_int max_recency))\<rparr>)
                  [0..max_frequency]) [0..max_recency])))))))))"

text \<open>
  \<^verbatim>\<open>df.to_csv(index=...)\<close>, as the header line and the records below it; the index is
  written as a first column only when asked for.
\<close>

record csv =
  header :: "string list"
  records :: "cell list list"

definition to_csv :: "dataframe \<Rightarrow> bool \<Rightarrow> csv" where
  "to_csv df with_index =
     (if with_index
      then \<lparr>header = (case index_name df of None \<Rightarrow> [] | Some n \<Rightarrow> n) # columns df,
            records = transpose (index df # map snd (cols df))\<rparr>
      else \<lparr>header = columns df,
            records = transpose (map snd (cols df))\<rparr>)"

datatype payload = Csv_text csv | Json_text "(string \<times> pyobj) list"

text \<open>
  A run of \<^verbatim>\<open>main\<close> ends with the upload prompt, with the error messages of the
  ingestion, or with the heat map data and the archive offered for download; an
  exception that leaves \<^verbatim>\<open>main\<close> is the \<open>Inl\<close> result. The calls that only display
  (\<^verbatim>\<open>st.write\<close>, the charts, \<^verbatim>\<open>plot_validation\<close>) are left out.
\<close>

datatype outcome =
    Upload_prompt
  | Load_error "string list"
  | Download "heat_cell list" "(string \<times> payload) list"

definition main ::
  "('f \<Rightarrow> exn + dataframe) \<Rightarrow> (cell \<Rightarrow> int option) \<Rightarrow>
   (dataframe \<Rightarrow> string \<Rightarrow> string \<Rightarrow> cell \<Rightarrow> exn + dataframe) \<Rightarrow>
   (pyobj \<Rightarrow> cell list \<Rightarrow> cell list \<Rightarrow> cell list \<Rightarrow> exn + series) \<Rightarrow>
   expectation \<Rightarrow> 'f option \<Rightarrow> real \<Rightarrow> int \<Rightarrow> exn + outcome" where
  "main read_csv parse summarize fit cef uploaded_file penalizer time_period =
     (case uploaded_file of
        None \<Rightarrow> Inr Upload_prompt
      | Some f \<Rightarrow>
          (case load_and_preprocess_data read_csv parse f of
             (None, shown) \<Rightarrow> Inr (Load_error shown)
           | (Some sales_data, shown) \<Rightarrow>
               andthen (transform summarize sales_data) (\<lambda>summary.
               andthen (train_model fit summary (Scalar (Num penalizer))) (\<lambda>bgf.
               andthen (make_predictions cef bgf summary (Num (of_int time_period))) (\<lambda>ps.
                 (let summary = setitem summary ''predicted_transactions'' ps
                  in andthen (plot_frequency_recency_heatmap cef bgf summary) (\<lambda>heat.
                       Inr (Download heat
                         [(''predictions.csv'', Csv_text (to_csv summary False)),
                          (''model_params.json'', Json_text (save_model_params bgf))]))))))))"

text \<open>The archive of a run that ends with the download, and no entries otherwise.\<close>

definition exported :: "exn + outcome \<Rightarrow> (string \<times> payload) list" where
  "exported r = (case r of Inr (Download heat archive) \<Rightarrow> archive | _ \<Rightarrow> [])"

section \<open>Calendar dates for the examples\<close>

text \<open>
  The day number of a date of the proleptic Gregorian calendar, counted from
  1970-01-01, and an instance of the date parser that reads \<^verbatim>\<open>YYYY-MM-DD\<close>.
\<close>

definition days_from_civil :: "int \<Rightarrow> int \<Rightarrow> int \<Rightarrow> int" where
  "days_from_civil y m d =
     (let y' = (if m \<le> 2 then y - 1 else y);
          era = y' div 400;
          yoe = y' - era * 400;
          doy = (153 * (if m > 2 then m - 3 else m + 9) + 2) div 5 + d - 1;
          doe = yoe * 365 + yoe div 4 - yoe div 100 + doy
      in era * 146097 + doe - 719468)"

definition digit :: "char \<Rightarrow> int option" where
  "digit c = (let n = (of_char c :: nat) in if 48 \<le> n \<and> n \<le> 57 then Some (int n - 48) else None)"

fun number :: "char list \<Rightarrow> int option" where
  "number [] = None"
| "number [c] = digit c"
| "number (c # cs) =
     (case digit (last (c # cs)) of
        None \<Rightarrow> None
      | Some u \<Rightarrow> (case number (butlast (c # cs)) of None \<Rightarrow> None | Some n \<Rightarrow> Some (10 * n + u)))"

definition parse_iso :: "cell \<Rightarrow> int option" where
  "parse_iso c =
     (case c of
        Timestamp d \<Rightarrow> Some d
      | Str s \<Rightarrow>
          (if length s = 10 \<and> s ! 4 = CHR ''-'' \<and> s ! 7 = CHR ''-''
           then (case (number (take 4 s), number (take 2 (drop 5 s)), number (drop 8 s)) of
                   (Some y, Some m, Some d) \<Rightarrow>
                     if 1 \<le> m \<and> m \<le> 12 \<and> 1 \<le> d \<and> d \<le> 31
                     then Some (days_from_civil y m d) else None
                 | _ \<Rightarrow> None)
           else None)
      | _ \<Rightarrow> None)"

section \<open>Example uploads and collaborators\<close>

text \<open>
  The scenario of the specification, as the table \<^verbatim>\<open>read_csv\<close> gives for it and as
  the cleaned table; an upload with one malformed date; an upload whose only row has
  no customer; an upload without the \<^verbatim>\<open>date\<close> column.
\<close>

definition upload_scenario :: dataframe where
  "upload_scenario =
     \<lparr>index_name = None, index = [Num 0, Num 1, Num 2],
      cols = [(''customer_id'', [Str ''C1'', Str ''C1'', Str ''C2'']),
              (''date'', [Str ''2023-01-01'', Str ''2023-02-01'', Str ''2023-01-15''])]\<rparr>"

definition sales_scenario :: dataframe where
  "sales_scenario =
     \<lparr>index_name = None, index = [Num 0, Num 1, Num 2],
      cols = [(''customer_id'', [Str ''C1'', Str ''C1'', Str ''C2'']),
              (''date'', [Timestamp (days_from_civil 2023 1 1),
                          Timestamp (days_from_civil 2023 2 1),
                          Timestamp (days_from_civil 2023 1 15)])]\<rparr>"

definition upload_bad_date :: dataframe where
  "upload_bad_date =
     \<lparr>index_name = None, index = [Num 0, Num 1, Num 2],
      cols = [(''customer_id'', [Str ''C1'', Str ''C1'', Str ''C2'']),
              (''date'', [Str ''2023-01-01'', Str ''not-a-date'', Str ''2023-01-15''])]\<rparr>"

definition upload_no_customer :: dataframe where
  "upload_no_customer =
     \<lparr>index_name = None, index = [Num 0],
      cols = [(''customer_id'', [NaN]), (''date'', [Str ''2023-01-01''])]\<rparr>"

definition upload_no_date :: dataframe where
  "upload_no_date =
     \<lparr>index_name = None, index = [Num 0],
      cols = [(''customer_id'', [Str ''C1'']), (''amount'', [Num 5])]\<rparr>"

text \<open>
  Stand-ins for the library calls in the examples: a fit that returns four named
  parameters, a fit that raises, a summarization that raises, and an expectation that
  is the horizon times the frequency plus one, over T plus one.
\<close>

definition summarize_failing :: "dataframe \<Rightarrow> string \<Rightarrow> string \<Rightarrow> cell \<Rightarrow> exn + dataframe" where
  "summarize_failing df customer_id_col datetime_col observation_period_end =
     Inl (LibraryError ''summary failed'')"

definition fit_example :: "pyobj \<Rightarrow> cell list \<Rightarrow> cell list \<Rightarrow> cell list \<Rightarrow> exn + series" where
  "fit_example pen fs rs ts =
     Inr [(Name ''r'', Num 1), (Name ''alpha'', Num 2), (Name ''a'', Num 3), (Name ''b'', Num 4)]"

definition fit_failing :: "pyobj \<Rightarrow> cell list \<Rightarrow> cell list \<Rightarrow> cell list \<Rightarrow> exn + series" where
  "fit_failing pen fs rs ts = Inl (LibraryError ''ConvergenceError'')"

fun cef_example :: expectation where
  "cef_example ps (Num t) (Num f) r (Num T) = Num (t * (f + 1) / (T + 1))"
| "cef_example ps t f r T = NaN"

section \<open>Ingestion: properties\<close>

lemma sublist_join:
  "c \<in> set cs \<Longrightarrow> sublist c (join sep cs)"
proof (induction sep cs rule: join.induct)
  case (1 sep)
  then show ?case by simp
next
  case (2 sep x)
  then show ?case by simp
next
  case (3 sep x y ys)
  show ?case
  proof (cases "c = x")
    case True
    then show ?thesis by (simp add: sublist_def) (metis append_Nil)
  next
    case False
    with 3 have "sublist c (join sep (y # ys))" by simp
    then obtain ps ss where "join sep (y # ys) = ps @ c @ ss"
      by (auto simp: sublist_def)
    then have "join sep (x # y # ys) = (x @ sep @ ps) @ c @ ss"
      by simp
    then show ?thesis
      unfolding sublist_def by blast
  qed
qed

lemma sublist_prepend: "sublist xs ys \<Longrightarrow> sublist xs (ps @ ys)"
  by (simp add: sublist_append)

lemma schema_message_names:
  assumes "c \<in> set required_columns"
  shows "sublist c (''Error loading data: '' @ schema_message)"
proof -
  have "sublist c (join '', '' required_columns)"
    using sublist_join [OF assms] .
  then have "sublist c schema_message"
    unfolding schema_message_def by (rule sublist_prepend)
  then show ?thesis by (rule sublist_prepend)
qed

lemma load_try_schema:
  assumes "read_csv f = Inr df"
    and "''customer_id'' \<notin> set (columns df) \<or> ''date'' \<notin> set (columns df)"
  shows "load_try read_csv parse f = Inl (ValueError schema_message)"
  using assms by (auto simp: load_try_def required_columns_def)

text \<open>
  C4. An uploaded table without the column \<^verbatim>\<open>customer_id\<close> or without the column
  \<^verbatim>\<open>date\<close> is rejected: no table is returned, exactly one error message is shown, it is
  the schema message, and every required column that is missing occurs in it by name.
\<close>

theorem missing_column_rejected:
  assumes "read_csv f = Inr df"
    and "''customer_id'' \<notin> set (columns df) \<or> ''date'' \<notin> set (columns df)"
  shows "load_and_preprocess_data read_csv parse f =
           (None, [''Error loading data: The dataset must contain the following columns: customer_id, date''])
         \<and> (\<forall>c \<in> set required_columns. c \<notin> set (columns df) \<longrightarrow>
               (\<forall>m \<in> set (snd (load_and_preprocess_data read_csv parse f)). sublist c m))"
proof -
  have r: "load_and_preprocess_data read_csv parse f =
             (None, [''Error loading data: '' @ schema_message])"
    using load_try_schema [of read_csv f df parse] assms
    by (simp add: load_and_preprocess_data_def)
  have m: "''Error loading data: '' @ schema_message =
     ''Error loading data: The dataset must contain the following columns: customer_id, date''"
    by (simp add: schema_message_def required_columns_def)
  have s: "\<forall>c \<in> set required_columns. sublist c (''Error loading data: '' @ schema_message)"
    using schema_message_names by blast
  show ?thesis
    unfolding r using m s by simp
qed

theorem missing_column_rejected_witness:
  "load_and_preprocess_data Inr parse_iso upload_no_date =
     (None, [''Error loading data: The dataset must contain the following columns: customer_id, date''])
   \<and> sublist ''date''
        ''Error loading data: The dataset must contain the following columns: customer_id, date''"
  using missing_column_rejected [of Inr upload_no_date upload_no_date parse_iso]
  by (simp add: columns_def required_columns_def upload_no_date_def)

lemma getitem_columns: "getitem df c = Inr xs \<Longrightarrow> c \<in> set (columns df)"
  by (auto simp: getitem_def columns_def split: option.splits dest: map_of_SomeD intro: rev_image_eqI)

lemma getitem_setitem_same: "getitem (setitem df c xs) c = Inr xs"
  by (simp add: getitem_def setitem_def update_conv')

lemma columns_setitem_present:
  "c \<in> set (columns df) \<Longrightarrow> columns (setitem df c xs) = columns df"
  by (simp add: columns_def setitem_def update_keys)

lemma list_ex_isnull_to_datetime:
  "list_ex isnull (to_datetime parse raw) \<longleftrightarrow> (\<exists>c \<in> set raw. parse c = None)"
  by (auto simp: list_ex_iff to_datetime_def isnull_def split: option.splits)

lemma dropna_present:
  assumes "set cs \<subseteq> set (columns df)"
  shows "dropna cs df =
           Inr (df\<lparr>index := select (notnull_mask df cs) (index df),
                   cols := map (\<lambda>(c, xs). (c, select (notnull_mask df cs) xs)) (cols df)\<rparr>)"
proof -
  have "filter (\<lambda>c. c \<notin> set (columns df)) cs = []"
    using assms by (auto simp: filter_empty_conv)
  then show ?thesis by (simp add: dropna_def Let_def)
qed

lemma load_try_dates:
  assumes "read_csv f = Inr df"
    and "''customer_id'' \<in> set (columns df)"
    and "getitem df ''date'' = Inr raw"
  shows "load_try read_csv parse f =
           (if \<exists>c \<in> set raw. parse c = None
            then Inl (ValueError date_message)
            else dropna [''customer_id'', ''date''] (setitem df ''date'' (to_datetime parse raw)))"
  using assms getitem_columns [OF assms(3)]
  by (simp add: load_try_def required_columns_def getitem_setitem_same
      list_ex_isnull_to_datetime)

text \<open>
  C5. With both required columns present, one date cell that does not parse makes
  the ingestion reject the whole table: nothing is returned and the date message is
  shown. When every date cell parses, a table is returned and no message is shown.
\<close>

theorem unparseable_date_rejects_dataset:
  assumes "read_csv f = Inr df"
    and "''customer_id'' \<in> set (columns df)"
    and "getitem df ''date'' = Inr raw"
  shows "((\<exists>c \<in> set raw. parse c = None) \<longrightarrow>
            load_and_preprocess_data read_csv parse f =
              (None, [''Error loading data: '' @ date_message]))
       \<and> ((\<forall>c \<in> set raw. parse c \<noteq> None) \<longrightarrow>
            (\<exists>clean. load_and_preprocess_data read_csv parse f = (Some clean, [])))"
proof -
  let ?df = "setitem df ''date'' (to_datetime parse raw)"
  have "set [''customer_id'', ''date''] \<subseteq> set (columns ?df)"
    using assms(2) getitem_columns [OF assms(3)] by (simp add: columns_setitem_present)
  from dropna_present [OF this]
  obtain clean where "dropna [''customer_id'', ''date''] ?df = Inr clean" by blast
  then show ?thesis
    using load_try_dates [where read_csv = read_csv and f = f and parse = parse] assms
    by (auto simp: load_and_preprocess_data_def)
qed

theorem unparseable_date_rejects_dataset_witness:
  "load_and_preprocess_data Inr parse_iso upload_bad_date =
     (None, [''Error loading data: '' @ date_message])
   \<and> (\<exists>clean. load_and_preprocess_data Inr parse_iso upload_scenario = (Some clean, []))"
  using unparseable_date_rejects_dataset [of Inr upload_bad_date upload_bad_date
      "[Str ''2023-01-01'', Str ''not-a-date'', Str ''2023-01-15'']" parse_iso]
    unparseable_date_rejects_dataset [of Inr upload_scenario upload_scenario
      "[Str ''2023-01-01'', Str ''2023-02-01'', Str ''2023-01-15'']" parse_iso]
  by (simp add: upload_bad_date_def upload_scenario_def columns_def getitem_def
      parse_iso_def digit_def)

lemma select_all_False: "\<forall>b \<in> set keep. \<not> b \<Longrightarrow> select keep xs = []"
  by (auto simp: select_def filter_empty_conv dest: set_zip_rightD)

lemma getitem_map_of: "getitem df c = Inr xs \<longleftrightarrow> map_of (cols df) c = Some xs"
  by (simp add: getitem_def split: option.splits)

lemma getitem_column: "getitem df c = Inr xs \<Longrightarrow> column df c = xs"
  by (simp add: getitem_map_of column_def)

lemma getitem_setitem_other: "c \<noteq> c' \<Longrightarrow> getitem (setitem df c' xs) c = getitem df c"
  by (simp add: getitem_def setitem_def update_conv')

lemma notnull_mask_blank:
  assumes "getitem df c = Inr ids" and "\<forall>x \<in> set ids. x = NaN"
  shows "\<forall>b \<in> set (notnull_mask df (c # cs)). \<not> b"
  using assms
  by (auto simp: notnull_mask_def getitem_map_of isnull_def dest: set_zip_leftD)

lemma main_Load_error:
  assumes "main read_csv parse summarize fit cef (Some f) penalizer time_period = Inr (Load_error shown)"
  shows "load_and_preprocess_data read_csv parse f = (None, shown)"
  using assms
  by (auto simp: main_def andthen_def Let_def split: prod.splits option.splits sum.splits)

lemma andthen_Inr_iff: "andthen r k = Inr y \<longleftrightarrow> (\<exists>v. r = Inr v \<and> k v = Inr y)"
  by (cases r) (simp_all add: andthen_def)

lemma cell_max_Timestamp:
  assumes "cell_max acc x = Inr r" and "acc = Timestamp d \<or> x = Timestamp d"
  shows "\<exists>e. r = Timestamp e \<and> d \<le> e"
  using assms by (cases acc; cases x) auto

lemma series_max_from_Timestamp:
  assumes "series_max_from acc xs = Inr r"
    and "acc = Timestamp d \<or> Timestamp d \<in> set xs"
  shows "\<exists>e. r = Timestamp e \<and> d \<le> e"
  using assms
proof (induction xs arbitrary: acc d)
  case Nil
  then show ?case by auto
next
  case (Cons x xs)
  from Cons.prems(1) obtain acc' where a: "cell_max acc x = Inr acc'"
    and s: "series_max_from acc' xs = Inr r"
    by (auto simp: andthen_Inr_iff)
  show ?case
  proof (cases "Timestamp d \<in> set xs")
    case True
    then show ?thesis using Cons.IH [OF s] by blast
  next
    case False
    with Cons.prems(2) have "acc = Timestamp d \<or> x = Timestamp d" by auto
    then obtain d' where "acc' = Timestamp d'" and le: "d \<le> d'"
      using cell_max_Timestamp [OF a] by blast
    then obtain e where "r = Timestamp e" "d' \<le> e"
      using Cons.IH [OF s, of d'] by blast
    with le show ?thesis by auto
  qed
qed

lemma series_max_upper:
  assumes "series_max xs = Inr r" and "Timestamp d \<in> set xs"
  shows "\<exists>e. r = Timestamp e \<and> d \<le> e"
  using series_max_from_Timestamp [of NaN xs r d] assms by (simp add: series_max_def)

lemma customer_summary_Cons:
  "customer_summary (d # ds) (Timestamp e) =
     (Num (real (length ds)),
      Num (of_int (Max (set (d # ds)) - Min (set (d # ds)))),
      Num (of_int (e - Min (set (d # ds)))))"
  by (simp add: customer_summary_def Let_def Max.set_eq_fold Min.set_eq_fold
      del: set_simps)

lemma set_map_filter:
  "set (List.map_filter f xs) = {y. \<exists>x \<in> set xs. f x = Some y}"
  by (induction xs) (auto split: option.splits)

lemma set_transactions:
  "(c, d) \<in> set (transactions ids dates) \<longleftrightarrow> (c, Timestamp d) \<in> set (zip ids dates)"
proof -
  have "tx_of p = Some (c, d) \<longleftrightarrow> p = (c, Timestamp d)" for p
    by (cases p rule: tx_of.cases) auto
  then show ?thesis
    by (auto simp: transactions_def set_map_filter)
qed

lemma transactions_date:
  "(c, d) \<in> set (transactions ids dates) \<Longrightarrow> Timestamp d \<in> set dates"
  by (auto simp: set_transactions dest: set_zip_rightD)

lemma set_dates_of: "set (dates_of txs c) = {d. (c, d) \<in> set txs}"
  by (auto simp: dates_of_def intro: rev_image_eqI)

lemma summary_records_frame:
  "summary_records \<lparr>index_name = n, index = cs,
      cols = [(''frequency'', map (\<lambda>c. fst (g c)) cs),
              (''recency'', map (\<lambda>c. fst (snd (g c))) cs),
              (''T'', map (\<lambda>c. snd (snd (g c))) cs)]\<rparr> =
   map (\<lambda>c. (c, g c)) cs"
  by (induction cs) (simp_all add: summary_records_def column_def)

lemma transform_summary:
  assumes "transform summary_data_from_transaction_data sales_data = Inr summary"
  obtains ids dates ope where
    "getitem sales_data ''customer_id'' = Inr ids"
    "getitem sales_data ''date'' = Inr dates"
    "series_max dates = Inr ope"
    "index summary = remdups (map fst (transactions ids dates))"
    "summary_records summary =
       map (\<lambda>c. (c, customer_summary (dates_of (transactions ids dates) c) ope))
         (remdups (map fst (transactions ids dates)))"
proof -
  from assms obtain dates ope ids where
    g: "getitem sales_data ''date'' = Inr dates" "series_max dates = Inr ope"
      "getitem sales_data ''customer_id'' = Inr ids"
    and s: "summary = \<lparr>index_name = Some ''customer_id'',
        index = remdups (map fst (transactions ids dates)),
        cols = [(''frequency'', map (\<lambda>c. fst (customer_summary (dates_of (transactions ids dates) c) ope))
                   (remdups (map fst (transactions ids dates)))),
                (''recency'', map (\<lambda>c. fst (snd (customer_summary (dates_of (transactions ids dates) c) ope)))
                   (remdups (map fst (transactions ids dates)))),
                (''T'', map (\<lambda>c. snd (snd (customer_summary (dates_of (transactions ids dates) c) ope)))
                   (remdups (map fst (transactions ids dates))))]\<rparr>"
    by (auto simp: transform_def summary_data_from_transaction_data_def andthen_Inr_iff
        Let_def comp_def split: if_splits)
  show ?thesis
    using that [OF g(3) g(1) g(2)] unfolding s summary_records_frame by simp
qed

lemma scenario_ingestion:
  "load_and_preprocess_data Inr parse_iso upload_scenario = (Some sales_scenario, [])"
  by (simp add: load_and_preprocess_data_def load_try_def upload_scenario_def
      sales_scenario_def required_columns_def columns_def getitem_def setitem_def
      to_datetime_def parse_iso_def digit_def isnull_def dropna_def notnull_mask_def
      select_def days_from_civil_def)

lemma scenario_summary:
  "transform summary_data_from_transaction_data sales_scenario =
     Inr \<lparr>index_name = Some ''customer_id'', index = [Str ''C1'', Str ''C2''],
          cols = [(''frequency'', [Num 1, Num 0]),
                  (''recency'', [Num 31, Num 0]),
                  (''T'', [Num 31, Num 17])]\<rparr>"
  by (simp add: sales_scenario_def transform_def summary_data_from_transaction_data_def
      andthen_def getitem_def series_max_def days_from_civil_def transactions_def
      dates_of_def customer_summary_def)

text \<open>
  C1. For the transactions (C1, 2023-01-01), (C1, 2023-02-01), (C2, 2023-01-15), the
  ingestion gives the cleaned table of these three rows, the cutoff is 2023-02-01, and
  the summary has exactly two rows: C1 with frequency 1, recency 31 and T 31, and C2
  with frequency 0, recency 0 and T 17.
\<close>

theorem scenario_two_customers:
  "load_and_preprocess_data Inr parse_iso upload_scenario = (Some sales_scenario, [])
   \<and> series_max (column sales_scenario ''date'') = Inr (Timestamp (days_from_civil 2023 2 1))
   \<and> transform summary_data_from_transaction_data sales_scenario =
       Inr \<lparr>index_name = Some ''customer_id'', index = [Str ''C1'', Str ''C2''],
            cols = [(''frequency'', [Num 1, Num 0]),
                    (''recency'', [Num 31, Num 0]),
                    (''T'', [Num 31, Num 17])]\<rparr>
   \<and> summary_records
        \<lparr>index_name = Some ''customer_id'', index = [Str ''C1'', Str ''C2''],
         cols = [(''frequency'', [Num 1, Num 0]),
                 (''recency'', [Num 31, Num 0]),
                 (''T'', [Num 31, Num 17])]\<rparr> =
       [(Str ''C1'', Num 1, Num 31, Num 31), (Str ''C2'', Num 0, Num 0, Num 17)]"
proof -
  have "series_max (column sales_scenario ''date'') =
      Inr (Timestamp (days_from_civil 2023 2 1))"
    by (simp add: sales_scenario_def column_def series_max_def andthen_def
        days_from_civil_def)
  moreover have "summary_records
        \<lparr>index_name = Some ''customer_id'', index = [Str ''C1'', Str ''C2''],
         cols = [(''frequency'', [Num 1, Num 0]),
                 (''recency'', [Num 31, Num 0]),
                 (''T'', [Num 31, Num 17])]\<rparr> =
       [(Str ''C1'', Num 1, Num 31, Num 31), (Str ''C2'', Num 0, Num 0, Num 17)]"
    by (simp add: summary_records_def column_def)
  ultimately show ?thesis
    using scenario_ingestion scenario_summary by simp
qed

lemma dropna_InrD:
  assumes "dropna cs df = Inr clean"
  shows "clean =
      df\<lparr>index := select (notnull_mask df cs) (index df),
         cols := map (\<lambda>(c, xs). (c, select (notnull_mask df cs) xs)) (cols df)\<rparr>"
proof (cases "filter (\<lambda>c. c \<notin> set (columns df)) cs")
  case Nil
  with assms show ?thesis
    unfolding dropna_def by (simp add: Let_def)
next
  case (Cons m ms)
  with assms show ?thesis
    unfolding dropna_def by simp
qed

lemma set_select: "set (select keep xs) \<subseteq> set xs"
  by (auto simp: select_def dest: set_zip_leftD)

lemma map_of_select:
  "map_of al c = Some xs \<Longrightarrow>
     map_of (map (\<lambda>(c, xs). (c, select keep xs)) al) c = Some (select keep xs)"
  by (induction al) auto

lemma getitem_dropna:
  assumes "dropna cs df = Inr clean" and "getitem df c = Inr xs"
  shows "\<exists>ys. getitem clean c = Inr ys \<and> set ys \<subseteq> set xs"
proof -
  let ?keep = "notnull_mask df cs"
  have m: "map_of (cols df) c = Some xs"
    using assms(2) unfolding getitem_map_of .
  have e: "clean = df\<lparr>index := select ?keep (index df),
         cols := map (\<lambda>(c, xs). (c, select ?keep xs)) (cols df)\<rparr>"
    using assms(1) by (rule dropna_InrD)
  have "cols clean = map (\<lambda>(c, xs). (c, select ?keep xs)) (cols df)"
    unfolding e by simp
  then have "map_of (cols clean) c = Some (select ?keep xs)"
    using map_of_select [OF m, of ?keep] by simp
  then have "getitem clean c = Inr (select ?keep xs)"
    unfolding getitem_map_of .
  moreover have "set (select ?keep xs) \<subseteq> set xs"
    by (rule set_select)
  ultimately show ?thesis
    by (intro exI conjI)
qed

lemma columns_getitem: "c \<in> set (columns df) \<Longrightarrow> \<exists>xs. getitem df c = Inr xs"
  by (cases "map_of (cols df) c") (auto simp: getitem_def columns_def map_of_eq_None_iff)

lemma load_SomeD:
  assumes "load_and_preprocess_data read_csv parse f = (Some sales_data, shown)"
  obtains df raw where
    "read_csv f = Inr df"
    "''customer_id'' \<in> set (columns df)"
    "getitem df ''date'' = Inr raw"
    "\<forall>c \<in> set raw. parse c \<noteq> None"
    "dropna [''customer_id'', ''date''] (setitem df ''date'' (to_datetime parse raw)) = Inr sales_data"
    "shown = []"
proof -
  from assms have l: "load_try read_csv parse f = Inr sales_data" and s: "shown = []"
    by (auto simp: load_and_preprocess_data_def split: sum.splits)
  then obtain df where r: "read_csv f = Inr df"
    by (auto simp: load_try_def split: sum.splits)
  with l have c: "''customer_id'' \<in> set (columns df)" "''date'' \<in> set (columns df)"
    by (auto simp: load_try_def required_columns_def split: if_splits)
  then obtain raw where g: "getitem df ''date'' = Inr raw"
    using columns_getitem by blast
  have t: "load_try read_csv parse f =
           (if \<exists>c \<in> set raw. parse c = None
            then Inl (ValueError date_message)
            else dropna [''customer_id'', ''date''] (setitem df ''date'' (to_datetime parse raw)))"
    using load_try_dates [where read_csv = read_csv and f = f and parse = parse] r c(1) g
    by blast
  with l have "\<forall>c \<in> set raw. parse c \<noteq> None"
    by (auto split: if_splits)
  moreover from this t l
  have "dropna [''customer_id'', ''date''] (setitem df ''date'' (to_datetime parse raw)) =
      Inr sales_data"
    by auto
  ultimately show ?thesis
    using that r c(1) g s by blast
qed

lemma load_columns:
  assumes "load_and_preprocess_data read_csv parse f = (Some sales_data, shown)"
  shows "\<exists>ids dates. getitem sales_data ''customer_id'' = Inr ids
           \<and> getitem sales_data ''date'' = Inr dates
           \<and> (\<forall>x \<in> set dates. \<exists>d. x = Timestamp d)"
proof -
  from assms obtain df raw where
    c: "''customer_id'' \<in> set (columns df)"
    and g: "getitem df ''date'' = Inr raw"
    and p: "\<forall>c \<in> set raw. parse c \<noteq> None"
    and d: "dropna [''customer_id'', ''date''] (setitem df ''date'' (to_datetime parse raw)) =
        Inr sales_data"
    by (rule load_SomeD)
  let ?df = "setitem df ''date'' (to_datetime parse raw)"
  from c obtain ids0 where "getitem df ''customer_id'' = Inr ids0"
    using columns_getitem by blast
  then have "getitem ?df ''customer_id'' = Inr ids0"
    by (simp add: getitem_setitem_other)
  from getitem_dropna [OF d this] obtain ids where
    i: "getitem sales_data ''customer_id'' = Inr ids" by blast
  have "getitem ?df ''date'' = Inr (to_datetime parse raw)"
    by (rule getitem_setitem_same)
  from getitem_dropna [OF d this] obtain dates where
    dt: "getitem sales_data ''date'' = Inr dates"
    and sub: "set dates \<subseteq> set (to_datetime parse raw)" by blast
  have "\<exists>d. x = Timestamp d" if "x \<in> set dates" for x
    using that sub p by (auto simp: to_datetime_def split: option.splits)
  with i dt show ?thesis by blast
qed

lemma series_max_from_total:
  assumes "\<forall>x \<in> set xs. \<exists>d. x = Timestamp d" and "acc = NaN \<or> (\<exists>a. acc = Timestamp a)"
  shows "\<exists>r. series_max_from acc xs = Inr r"
  using assms
proof (induction xs arbitrary: acc)
  case Nil
  then show ?case by simp
next
  case (Cons x xs)
  from Cons.prems(1) obtain d where x: "x = Timestamp d" by auto
  from Cons.prems(2) obtain d' where c: "cell_max acc x = Inr (Timestamp d')"
    unfolding x by (cases acc) auto
  have "\<forall>x \<in> set xs. \<exists>d. x = Timestamp d"
    using Cons.prems(1) by simp
  then have "\<exists>r. series_max_from (Timestamp d') xs = Inr r"
    by (rule Cons.IH) simp
  then show ?case
    unfolding series_max_from.simps c by (simp add: andthen_def)
qed

lemma transform_total:
  assumes "load_and_preprocess_data read_csv parse f = (Some sales_data, shown)"
    and "transactions_of sales_data \<noteq> []"
  shows "\<exists>summary. transform summary_data_from_transaction_data sales_data = Inr summary"
proof -
  from load_columns [OF assms(1)] obtain ids dates where
    g: "getitem sales_data ''customer_id'' = Inr ids" "getitem sales_data ''date'' = Inr dates"
    and t: "\<forall>x \<in> set dates. \<exists>d. x = Timestamp d"
    by blast
  from series_max_from_total [OF t, of NaN] obtain ope where "series_max dates = Inr ope"
    by (auto simp: series_max_def)
  moreover have "transactions ids dates \<noteq> []"
    using assms(2) g by (simp add: transactions_of_def getitem_column)
  ultimately show ?thesis
    using g
    by (simp add: transform_def summary_data_from_transaction_data_def andthen_def Let_def)
qed

lemma summary_rows_bounds:
  assumes "transform summary_data_from_transaction_data sales_data = Inr summary"
  shows "length (summary_records summary) = length (index summary)
       \<and> (\<forall>(c, f, r, t) \<in> set (summary_records summary).
            \<exists>x y z. f = Num x \<and> r = Num y \<and> t = Num z
                   \<and> 0 \<le> x \<and> 0 \<le> y \<and> y \<le> z \<and> 0 \<le> z)"
proof -
  from assms obtain ids dates ope where
    m: "series_max dates = Inr ope"
    and i: "index summary = remdups (map fst (transactions ids dates))"
    and r: "summary_records summary =
       map (\<lambda>c. (c, customer_summary (dates_of (transactions ids dates) c) ope))
         (remdups (map fst (transactions ids dates)))"
    by (rule transform_summary)
  let ?txs = "transactions ids dates"
  have row: "\<exists>x y z. customer_summary (dates_of ?txs c) ope = (Num x, Num y, Num z)
               \<and> 0 \<le> x \<and> 0 \<le> y \<and> y \<le> z \<and> 0 \<le> z"
    if "c \<in> set (map fst ?txs)" for c
  proof -
    from that obtain d0 where d0: "(c, d0) \<in> set ?txs" by auto
    then have "Timestamp d0 \<in> set dates" by (rule transactions_date)
    from series_max_upper [OF m this] obtain e where e: "ope = Timestamp e" by blast
    have le: "d \<le> e" if "d \<in> set (dates_of ?txs c)" for d
    proof -
      from that have "Timestamp d \<in> set dates"
        by (auto simp: set_dates_of dest: transactions_date)
      from series_max_upper [OF m this] e show ?thesis by simp
    qed
    from d0 have "dates_of ?txs c \<noteq> []"
      using set_dates_of [of ?txs c] by auto
    then obtain d ds where ds: "dates_of ?txs c = d # ds"
      by (cases "dates_of ?txs c") auto
    define lo hi where "lo = Min (set (d # ds))" and "hi = Max (set (d # ds))"
    have "lo \<in> set (d # ds)" and "hi \<in> set (d # ds)"
      unfolding lo_def hi_def by (rule Min_in Max_in; simp)+
    then have "lo \<le> hi" and "hi \<le> e"
      using le unfolding ds hi_def lo_def by (simp_all del: set_simps)
    moreover have "customer_summary (dates_of ?txs c) ope =
        (Num (real (length ds)), Num (of_int (hi - lo)), Num (of_int (e - lo)))"
      unfolding ds e customer_summary_Cons lo_def hi_def ..
    ultimately show ?thesis by simp
  qed
  have "length (summary_records summary) = length (index summary)"
    by (simp add: r i)
  moreover have "\<exists>x y z. f = Num x \<and> r' = Num y \<and> t = Num z
                   \<and> 0 \<le> x \<and> 0 \<le> y \<and> y \<le> z \<and> 0 \<le> z"
    if "(c, f, r', t) \<in> set (summary_records summary)" for c f r' t
  proof -
    from that have "c \<in> set (map fst ?txs)"
      and "(f, r', t) = customer_summary (dates_of ?txs c) ope"
      unfolding r by auto
    with row [of c] show ?thesis by auto
  qed
  ultimately show ?thesis by blast
qed


text \<open>
  C2. From every cleaned table that the ingestion returns and that holds at least one
  transaction, \<^verbatim>\<open>main\<close> obtains a summary, and every row of it holds numbers with
  frequency, recency and T not negative and recency at most T.
\<close>

theorem summary_invariants:
  assumes "load_and_preprocess_data read_csv parse f = (Some sales_data, shown)"
    and "transactions_of sales_data \<noteq> []"
  shows "\<exists>summary. transform summary_data_from_transaction_data sales_data = Inr summary
       \<and> length (summary_records summary) = length (index summary)
       \<and> (\<forall>(c, fr, r, t) \<in> set (summary_records summary).
            \<exists>x y z. fr = Num x \<and> r = Num y \<and> t = Num z
                   \<and> 0 \<le> x \<and> 0 \<le> y \<and> y \<le> z \<and> 0 \<le> z)"
proof -
  from transform_total [OF assms] obtain summary where
    t: "transform summary_data_from_transaction_data sales_data = Inr summary"
    by blast
  from summary_rows_bounds [OF t] t show ?thesis
    by blast
qed

theorem summary_invariants_witness:
  "load_and_preprocess_data Inr parse_iso upload_scenario = (Some sales_scenario, [])
   \<and> transactions_of sales_scenario \<noteq> []
   \<and> transform summary_data_from_transaction_data sales_scenario =
     Inr \<lparr>index_name = Some ''customer_id'', index = [Str ''C1'', Str ''C2''],
          cols = [(''frequency'', [Num 1, Num 0]),
                  (''recency'', [Num 31, Num 0]),
                  (''T'', [Num 31, Num 17])]\<rparr>
   \<and> (\<exists>x y z. Num 1 = Num x \<and> Num 31 = Num y \<and> Num 31 = Num z
          \<and> 0 \<le> x \<and> 0 \<le> y \<and> y \<le> z \<and> 0 \<le> z)
   \<and> (\<exists>x y z. Num 0 = Num x \<and> Num 0 = Num y \<and> Num 17 = Num z
          \<and> 0 \<le> x \<and> 0 \<le> y \<and> y \<le> z \<and> 0 \<le> z)"
proof -
  have n: "transactions_of sales_scenario \<noteq> []"
    by (simp add: transactions_of_def sales_scenario_def column_def transactions_def)
  show ?thesis
    using summary_invariants [OF scenario_ingestion n] scenario_ingestion scenario_summary n
    by (simp add: summary_records_def column_def)
qed

lemma getitem_blank:
  assumes "getitem df c = Inr xs" and "\<forall>b \<in> set keep. \<not> b"
  shows "getitem (df\<lparr>index := ix, cols := map (\<lambda>(c, xs). (c, select keep xs)) (cols df)\<rparr>) c =
      Inr []"
proof -
  have "map_of (cols df) c = Some xs"
    using assms(1) unfolding getitem_map_of .
  then have "map_of (map (\<lambda>(c, xs). (c, select keep xs)) (cols df)) c = Some (select keep xs)"
    by (rule map_of_select)
  then show ?thesis
    by (simp add: getitem_def select_all_False [OF assms(2)])
qed

text \<open>
  C6 (as amended). A table that passes the schema and date checks and whose rows all
  miss their \<^verbatim>\<open>customer_id\<close> (in particular a table without rows) is not rejected by
  the ingestion: it shows no message and returns the cleaned table, which has no rows.
  \<^verbatim>\<open>main\<close> passes this table to the summarization with a missing cutoff; an exception
  of the summarization is not caught and leaves \<^verbatim>\<open>main\<close>, and no load error is
  reported. The summarization fails on the table, so that the run ends with its
  exception and no summary reaches the fit.
\<close>

theorem empty_after_cleanup_not_reported:
  assumes "read_csv f = Inr df"
    and "getitem df ''customer_id'' = Inr ids"
    and "getitem df ''date'' = Inr raw"
    and "\<forall>c \<in> set raw. parse c \<noteq> None"
    and "\<forall>c \<in> set ids. c = NaN"
  shows "\<exists>clean. load_and_preprocess_data read_csv parse f = (Some clean, [])
           \<and> index clean = [] \<and> (\<forall>c. column clean c = [])
           \<and> transform summarize clean = summarize clean ''customer_id'' ''date'' NaN
           \<and> (\<forall>e. summarize clean ''customer_id'' ''date'' NaN = Inl e \<longrightarrow>
                  main read_csv parse summarize fit cef (Some f) penalizer time_period = Inl e)
           \<and> (\<forall>shown. main read_csv parse summarize fit cef (Some f) penalizer time_period
                  \<noteq> Inr (Load_error shown))
           \<and> main read_csv parse summary_data_from_transaction_data fit cef (Some f)
                 penalizer time_period = Inl (LibraryError ''EmptyDatasetError'')"
proof -
  let ?df = "setitem df ''date'' (to_datetime parse raw)"
  let ?cs = "[''customer_id'', ''date'']"
  let ?keep = "notnull_mask ?df ?cs"
  let ?clean = "?df\<lparr>index := select ?keep (index ?df),
                     cols := map (\<lambda>(c, xs). (c, select ?keep xs)) (cols ?df)\<rparr>"
  have present: "''customer_id'' \<in> set (columns df)" "''date'' \<in> set (columns df)"
    using assms(2,3) by (auto dest: getitem_columns)
  then have "set ?cs \<subseteq> set (columns ?df)"
    by (simp add: columns_setitem_present)
  then have d: "dropna ?cs ?df = Inr ?clean"
    by (rule dropna_present)
  have "load_try read_csv parse f = dropna ?cs ?df"
    using load_try_dates [where read_csv = read_csv and f = f and parse = parse] assms present
    by auto
  with d have l: "load_and_preprocess_data read_csv parse f = (Some ?clean, [])"
    by (simp add: load_and_preprocess_data_def)
  have ids: "getitem ?df ''customer_id'' = Inr ids"
    using assms(2) by (simp add: getitem_setitem_other)
  then have blank: "\<forall>b \<in> set ?keep. \<not> b"
    using assms(5) by (rule notnull_mask_blank)
  then have i: "index ?clean = []"
    by (simp add: select_all_False)
  have c: "column ?clean c = []" for c
    using blank
    by (cases "map_of (cols ?df) c")
      (auto simp: column_def map_of_map select_all_False split: option.splits)
  have gc: "getitem ?clean ''customer_id'' = Inr []"
    using ids blank by (rule getitem_blank)
  have "getitem ?df ''date'' = Inr (to_datetime parse raw)"
    by (rule getitem_setitem_same)
  then have gd: "getitem ?clean ''date'' = Inr []"
    using blank by (rule getitem_blank)
  have t: "transform s ?clean = s ?clean ''customer_id'' ''date'' NaN" for s
    unfolding transform_def gd by (simp add: andthen_def series_max_def)
  have m: "main read_csv parse s fit cef (Some f) penalizer time_period = Inl e"
    if "s ?clean ''customer_id'' ''date'' NaN = Inl e" for s e
    unfolding main_def using that by (simp add: l t andthen_def)
  have "summary_data_from_transaction_data ?clean ''customer_id'' ''date'' NaN =
      Inl (LibraryError ''EmptyDatasetError'')"
    unfolding summary_data_from_transaction_data_def gc gd
    by (simp add: andthen_def transactions_def)
  then have e: "main read_csv parse summary_data_from_transaction_data fit cef (Some f)
      penalizer time_period = Inl (LibraryError ''EmptyDatasetError'')"
    by (rule m)
  have n: "main read_csv parse summarize fit cef (Some f) penalizer time_period \<noteq>
      Inr (Load_error shown)" for shown
    using main_Load_error [of read_csv parse summarize fit cef f penalizer time_period shown] l
    by auto
  from l i c t [of summarize] m [of summarize] n e show ?thesis
    by blast
qed

theorem empty_after_cleanup_not_reported_witness:
  "\<exists>clean. load_and_preprocess_data Inr parse_iso upload_no_customer = (Some clean, [])
     \<and> index clean = [] \<and> (\<forall>c. column clean c = [])
     \<and> main Inr parse_iso summarize_failing fit_example cef_example
          (Some upload_no_customer) 0 60 = Inl (LibraryError ''summary failed'')
     \<and> main Inr parse_iso summary_data_from_transaction_data fit_example cef_example
          (Some upload_no_customer) 0 60 = Inl (LibraryError ''EmptyDatasetError'')"
proof -
  have g: "getitem upload_no_customer ''customer_id'' = Inr [NaN]"
    "getitem upload_no_customer ''date'' = Inr [Str ''2023-01-01'']"
    by (simp_all add: upload_no_customer_def getitem_def)
  have p: "\<forall>c \<in> set [Str ''2023-01-01'']. parse_iso c \<noteq> None"
    by (simp add: parse_iso_def digit_def)
  have b: "\<forall>c \<in> set [NaN]. c = NaN"
    by simp
  from empty_after_cleanup_not_reported [where read_csv = Inr and f = upload_no_customer
      and parse = parse_iso and summarize = summarize_failing and fit = fit_example
      and cef = cef_example and penalizer = 0 and time_period = 60, OF refl g p b]
  obtain clean where
    "load_and_preprocess_data Inr parse_iso upload_no_customer = (Some clean, [])"
    "index clean = []" "\<forall>c. column clean c = []"
    "\<forall>e. summarize_failing clean ''customer_id'' ''date'' NaN = Inl e \<longrightarrow>
       main Inr parse_iso summarize_failing fit_example cef_example
         (Some upload_no_customer) 0 60 = Inl e"
    "main Inr parse_iso summary_data_from_transaction_data fit_example cef_example
       (Some upload_no_customer) 0 60 = Inl (LibraryError ''EmptyDatasetError'')"
    by blast
  then show ?thesis
    by (intro exI [of _ clean]) (simp add: summarize_failing_def)
qed

text \<open>
  The upload whose only row has no customer: the ingestion accepts it without any
  message and returns a table without rows; the summarization then raises, and the
  exception leaves \<^verbatim>\<open>main\<close> instead of being reported.
\<close>

theorem empty_after_cleanup_counterexample:
  "load_and_preprocess_data Inr parse_iso upload_no_customer =
     (Some \<lparr>index_name = None, index = [],
            cols = [(''customer_id'', []), (''date'', [])]\<rparr>, [])
   \<and> main Inr parse_iso summary_data_from_transaction_data fit_example cef_example
        (Some upload_no_customer) 0 60 = Inl (LibraryError ''EmptyDatasetError'')"
proof -
  have l: "load_and_preprocess_data Inr parse_iso upload_no_customer =
     (Some \<lparr>index_name = None, index = [],
            cols = [(''customer_id'', []), (''date'', [])]\<rparr>, [])"
    by (simp add: load_and_preprocess_data_def load_try_def upload_no_customer_def
        required_columns_def columns_def getitem_def setitem_def to_datetime_def
        parse_iso_def digit_def isnull_def dropna_def notnull_mask_def select_def)
  have "main Inr parse_iso summary_data_from_transaction_data fit_example cef_example
        (Some upload_no_customer) 0 60 = Inl (LibraryError ''EmptyDatasetError'')"
    unfolding main_def
    by (simp add: l transform_def getitem_def series_max_def andthen_def
        summary_data_from_transaction_data_def transactions_def)
  with l show ?thesis by simp
qed

lemma filter_distinct_eq:
  "distinct ys \<Longrightarrow> c \<in> set ys \<Longrightarrow> filter (\<lambda>x. x = c) ys = [c]"
  by (induction ys) (auto simp: filter_empty_conv)

lemma filter_remdups_eq:
  "c \<in> set xs \<Longrightarrow> filter (\<lambda>x. x = c) (remdups xs) = [c]"
  by (simp add: filter_distinct_eq)

text \<open>
  C3. A customer with exactly one transaction in the cleaned table has exactly one
  row in the summary, with frequency 0, recency 0 and T the cutoff (the latest date of
  the table) minus the day of that transaction.
\<close>

theorem single_transaction_customer:
  assumes "transform summary_data_from_transaction_data sales_data = Inr summary"
    and "filter (\<lambda>t. fst t = c) (transactions_of sales_data) = [(c, d)]"
  shows "\<exists>e. series_max (column sales_data ''date'') = Inr (Timestamp e)
           \<and> filter (\<lambda>r. fst r = c) (summary_records summary) =
               [(c, Num 0, Num 0, Num (of_int (e - d)))]"
proof -
  from assms(1) obtain ids dates ope where
    g: "getitem sales_data ''customer_id'' = Inr ids" "getitem sales_data ''date'' = Inr dates"
    and m: "series_max dates = Inr ope"
    and r: "summary_records summary =
       map (\<lambda>c. (c, customer_summary (dates_of (transactions ids dates) c) ope))
         (remdups (map fst (transactions ids dates)))"
    by (rule transform_summary)
  let ?txs = "transactions ids dates"
  have t: "transactions_of sales_data = ?txs"
    using g by (simp add: transactions_of_def getitem_column)
  with assms(2) have ds: "dates_of ?txs c = [d]"
    by (simp add: dates_of_def)
  then have "(c, d) \<in> set ?txs"
    using set_dates_of [of ?txs c] by auto
  then have c: "c \<in> set (map fst ?txs)" and "Timestamp d \<in> set dates"
    by (auto intro: rev_image_eqI dest: transactions_date)
  from series_max_upper [OF m this(2)] obtain e where e: "ope = Timestamp e" by blast
  have "filter (\<lambda>r. fst r = c) (summary_records summary) =
      map (\<lambda>c. (c, customer_summary (dates_of ?txs c) ope))
        (filter (\<lambda>x. x = c) (remdups (map fst ?txs)))"
    unfolding r by (simp add: filter_map comp_def)
  also have "\<dots> = [(c, customer_summary [d] (Timestamp e))]"
    using filter_remdups_eq [OF c] ds e by simp
  also have "\<dots> = [(c, Num 0, Num 0, Num (of_int (e - d)))]"
    by (simp add: customer_summary_def)
  finally show ?thesis
    using m e g by (auto simp: getitem_column)
qed

theorem single_transaction_customer_witness:
  "filter (\<lambda>t. fst t = Str ''C2'') (transactions_of sales_scenario) =
     [(Str ''C2'', days_from_civil 2023 1 15)]
   \<and> (\<exists>e. series_max (column sales_scenario ''date'') = Inr (Timestamp e)
         \<and> filter (\<lambda>r. fst r = Str ''C2'')
             (summary_records
                \<lparr>index_name = Some ''customer_id'', index = [Str ''C1'', Str ''C2''],
                 cols = [(''frequency'', [Num 1, Num 0]),
                         (''recency'', [Num 31, Num 0]),
                         (''T'', [Num 31, Num 17])]\<rparr>) =
             [(Str ''C2'', Num 0, Num 0, Num (of_int (e - days_from_civil 2023 1 15)))])"
proof -
  have t: "filter (\<lambda>t. fst t = Str ''C2'') (transactions_of sales_scenario) =
     [(Str ''C2'', days_from_civil 2023 1 15)]"
    by (simp add: transactions_of_def sales_scenario_def column_def transactions_def)
  show ?thesis
    using single_transaction_customer [OF scenario_summary t] t by simp
qed

lemma update_fresh: "k \<notin> fst ` set al \<Longrightarrow> AList.update k v al = al @ [(k, v)]"
  by (induction al) auto

lemma fold_update_distinct:
  "distinct (map fst (acc @ s)) \<Longrightarrow>
     fold (\<lambda>(k, v) d. AList.update k v d) s acc = acc @ s"
proof (induction s arbitrary: acc)
  case Nil
  then show ?case by simp
next
  case (Cons kv s)
  obtain k v where kv: "kv = (k, v)" by (cases kv)
  from Cons.prems have fresh: "k \<notin> fst ` set acc"
    and d: "distinct (map fst ((acc @ [(k, v)]) @ s))"
    by (auto simp: kv)
  show ?case
    using Cons.IH [OF d] by (simp add: kv update_fresh [OF fresh])
qed

lemma to_dict_distinct: "distinct (map fst s) \<Longrightarrow> to_dict s = s"
  using fold_update_distinct [of "[]" s] by (simp add: to_dict_def)

text \<open>
  C7. For a fitted model (its parameters carry distinct names), the document of
  \<^verbatim>\<open>save_model_params\<close> reloads with \<^verbatim>\<open>load_model_params\<close> into a model with the same
  named coefficients and the same \<^verbatim>\<open>penalizer_coef\<close>, and every expectation and every
  prediction column computed from the reloaded model equals the original's.
\<close>

theorem model_params_roundtrip:
  assumes "distinct (map fst (params bgf))"
  shows "\<exists>reloaded. load_model_params (save_model_params bgf) = Inr reloaded
           \<and> params reloaded = params bgf
           \<and> penalizer_coef reloaded = penalizer_coef bgf
           \<and> cef (params reloaded) t f r T = cef (params bgf) t f r T
           \<and> make_predictions cef reloaded summary t = make_predictions cef bgf summary t"
  using to_dict_distinct [OF assms]
  by (simp add: load_model_params_def save_model_params_def make_predictions_def)

theorem model_params_roundtrip_witness:
  "\<exists>reloaded. load_model_params
       (save_model_params
          \<lparr>penalizer_coef = Scalar (Num (1/10)),
           params = [(Name ''r'', Num 1), (Name ''alpha'', Num 2), (Name ''a'', Num 3),
                     (Name ''b'', Num 4)]\<rparr>) = Inr reloaded
     \<and> params reloaded =
         [(Name ''r'', Num 1), (Name ''alpha'', Num 2), (Name ''a'', Num 3), (Name ''b'', Num 4)]
     \<and> penalizer_coef reloaded = Scalar (Num (1/10))
     \<and> cef_example (params reloaded) (Num 30) (Num 1) (Num 31) (Num 31) = Num (15/8)"
  using model_params_roundtrip [of
      "\<lparr>penalizer_coef = Scalar (Num (1/10)),
        params = [(Name ''r'', Num 1), (Name ''alpha'', Num 2), (Name ''a'', Num 3),
                  (Name ''b'', Num 4)]\<rparr>"
      cef_example "Num 30" "Num 1" "Num 31" "Num 31"]
  by auto

lemma series_max_from_Num:
  "series_max_from (Num a) (map Num xs) = Inr (Num (fold max xs a))"
  by (induction xs arbitrary: a) (simp_all add: andthen_def max.commute)

lemma series_max_Num:
  assumes "xs \<noteq> []"
  shows "series_max (map Num xs) = Inr (Num (Max (set xs)))"
proof -
  from assms obtain a as where xs: "xs = a # as" by (cases xs) auto
  show ?thesis
    unfolding xs series_max_def
    by (simp add: andthen_def series_max_from_Num Max.set_eq_fold del: set_simps)
qed

lemma heatmap_value:
  assumes "getitem summary ''frequency'' = Inr (map Num fs)"
    and "getitem summary ''T'' = Inr (map Num ts)"
    and "fs \<noteq> []" and "ts \<noteq> []"
  shows "plot_frequency_recency_heatmap cef bgf summary =
     Inr (concat (map (\<lambda>i. map (\<lambda>j.
            \<lparr>Recency = i, Frequency = j,
             Expected_Purchases =
               cef (params bgf) (Num 30) (Num (of_int j)) (Num (of_int i))
                 (Num (of_int (min (int_of_float (Max (set ts))) 50)))\<rparr>)
            [0..min (int_of_float (Max (set fs))) 50]) [0..min (int_of_float (Max (set ts))) 50]))"
  using assms
  by (simp add: plot_frequency_recency_heatmap_def andthen_def series_max_Num Let_def)

lemma grid_positions:
  "map (\<lambda>c. (Recency c, Frequency c))
     (concat (map (\<lambda>i. map (\<lambda>j. \<lparr>Recency = i, Frequency = j, Expected_Purchases = v i j\<rparr>) js) is)) =
   List.product is js"
  by (induction "is") (simp_all add: comp_def)

text \<open>
  C9. For a summary with numbers in its \<^verbatim>\<open>frequency\<close> and \<^verbatim>\<open>T\<close> columns, the heat map
  data has exactly one cell for every pair of an integer recency from 0 to
  \<open>min (int (max T)) 50\<close> and an integer frequency from 0 to \<open>min (int (max frequency)) 50\<close>,
  both bounds included, and the value of each cell is the conditional expectation at
  horizon 30 for the cell's frequency and recency, with the capped maximum of T as the
  T input of every cell.
\<close>

theorem heatmap_grid:
  assumes "getitem summary ''frequency'' = Inr (map Num fs)"
    and "getitem summary ''T'' = Inr (map Num ts)"
    and "fs \<noteq> []" and "ts \<noteq> []"
  shows "\<exists>cells. plot_frequency_recency_heatmap cef bgf summary = Inr cells
     \<and> distinct (map (\<lambda>c. (Recency c, Frequency c)) cells)
     \<and> set (map (\<lambda>c. (Recency c, Frequency c)) cells) =
         {0..min (int_of_float (Max (set ts))) 50} \<times> {0..min (int_of_float (Max (set fs))) 50}
     \<and> (\<forall>c \<in> set cells.
           Expected_Purchases c =
             cef (params bgf) (Num 30) (Num (of_int (Frequency c))) (Num (of_int (Recency c)))
               (Num (of_int (min (int_of_float (Max (set ts))) 50))))"
proof -
  let ?R = "min (int_of_float (Max (set ts))) 50"
  let ?F = "min (int_of_float (Max (set fs))) 50"
  let ?v = "\<lambda>i j. cef (params bgf) (Num 30) (Num (of_int j)) (Num (of_int i)) (Num (of_int ?R))"
  let ?cells = "concat (map (\<lambda>i. map (\<lambda>j.
      \<lparr>Recency = i, Frequency = j, Expected_Purchases = ?v i j\<rparr>) [0..?F]) [0..?R])"
  have p: "plot_frequency_recency_heatmap cef bgf summary = Inr ?cells"
    using assms by (rule heatmap_value)
  have g: "map (\<lambda>c. (Recency c, Frequency c)) ?cells = List.product [0..?R] [0..?F]"
    by (rule grid_positions)
  have d: "distinct (map (\<lambda>c. (Recency c, Frequency c)) ?cells)"
    unfolding g by (simp add: distinct_product)
  have s: "set (map (\<lambda>c. (Recency c, Frequency c)) ?cells) = {0..?R} \<times> {0..?F}"
    unfolding g by simp
  have v: "\<forall>c \<in> set ?cells. Expected_Purchases c = ?v (Recency c) (Frequency c)"
    by auto
  from p d s v show ?thesis by blast
qed

theorem heatmap_grid_witness:
  "\<exists>cells. plot_frequency_recency_heatmap cef_example
       \<lparr>penalizer_coef = Scalar (Num 0), params = [(Name ''r'', Num 1)]\<rparr>
       \<lparr>index_name = Some ''customer_id'', index = [Str ''C1'', Str ''C2''],
        cols = [(''frequency'', [Num 1, Num 0]),
                (''recency'', [Num 31, Num 0]),
                (''T'', [Num 31, Num 17])]\<rparr> = Inr cells
     \<and> distinct (map (\<lambda>c. (Recency c, Frequency c)) cells)
     \<and> set (map (\<lambda>c. (Recency c, Frequency c)) cells) = {0..31} \<times> {0..1}"
  using heatmap_grid [of
      "\<lparr>index_name = Some ''customer_id'', index = [Str ''C1'', Str ''C2''],
        cols = [(''frequency'', [Num 1, Num 0]),
                (''recency'', [Num 31, Num 0]),
                (''T'', [Num 31, Num 17])]\<rparr>"
      "[1, 0]" "[31, 17]" cef_example
      "\<lparr>penalizer_coef = Scalar (Num 0), params = [(Name ''r'', Num 1)]\<rparr>"]
  apply (simp add: getitem_def int_of_float_def)
  apply (elim exE conjE)
  subgoal for cells
    by (rule exI [of _ cells]) simp
  done

lemma columns_summary:
  "summary_data_from_transaction_data df c d e = Inr s \<Longrightarrow>
     columns s = [''frequency'', ''recency'', ''T'']"
  by (auto simp: summary_data_from_transaction_data_def andthen_Inr_iff Let_def columns_def
      split: if_splits)

lemma columns_setitem_fresh:
  "c \<notin> set (columns df) \<Longrightarrow> columns (setitem df c xs) = columns df @ [c]"
  by (simp add: columns_def setitem_def update_keys)

lemma train_model_penalizer:
  "train_model fit summary pen = Inr bgf \<Longrightarrow> penalizer_coef bgf = pen"
  by (auto simp: train_model_def andthen_Inr_iff)

lemma main_Download:
  assumes "main read_csv parse summarize fit cef uploaded penalizer time_period =
             Inr (Download heat archive)"
  obtains f sales_data shown summary bgf ps where
    "uploaded = Some f"
    "load_and_preprocess_data read_csv parse f = (Some sales_data, shown)"
    "transform summarize sales_data = Inr summary"
    "train_model fit summary (Scalar (Num penalizer)) = Inr bgf"
    "make_predictions cef bgf summary (Num (of_int time_period)) = Inr ps"
    "plot_frequency_recency_heatmap cef bgf (setitem summary ''predicted_transactions'' ps) = Inr heat"
    "archive =
       [(''predictions.csv'', Csv_text (to_csv (setitem summary ''predicted_transactions'' ps) False)),
        (''model_params.json'', Json_text (save_model_params bgf))]"
  using assms
  by (auto simp: main_def andthen_Inr_iff Let_def split: option.splits prod.splits)

text \<open>
  C8 (as amended). When a run ends with the download and the summary has the columns
  \<^verbatim>\<open>frequency\<close>, \<^verbatim>\<open>recency\<close>, \<^verbatim>\<open>T\<close> (it is keyed by \<^verbatim>\<open>customer_id\<close>), the archive
  has exactly the entries \<^verbatim>\<open>predictions.csv\<close> and \<^verbatim>\<open>model_params.json\<close>, in this order;
  the header of \<^verbatim>\<open>predictions.csv\<close> is \<^verbatim>\<open>frequency, recency, T, predicted_transactions\<close>,
  without the index \<^verbatim>\<open>customer_id\<close>; \<^verbatim>\<open>model_params.json\<close> has exactly the fields
  \<^verbatim>\<open>params\<close>, a dictionary, and \<^verbatim>\<open>penalizer_coef\<close>, the value given to the fit.
\<close>

theorem export_contents:
  assumes "main read_csv parse summarize fit cef uploaded penalizer time_period =
             Inr (Download heat archive)"
    and "\<forall>df c d e s. summarize df c d e = Inr s \<longrightarrow>
           columns s = [''frequency'', ''recency'', ''T'']"
  shows "\<exists>recs ps.
           archive =
             [(''predictions.csv'',
               Csv_text \<lparr>header = [''frequency'', ''recency'', ''T'', ''predicted_transactions''],
                         records = recs\<rparr>),
              (''model_params.json'',
               Json_text [(''params'', Dict ps), (''penalizer_coef'', Scalar (Num penalizer))])]"
proof -
  from assms(1) obtain sales_data summary bgf ps where
    t: "transform summarize sales_data = Inr summary"
    and b: "train_model fit summary (Scalar (Num penalizer)) = Inr bgf"
    and a: "archive =
       [(''predictions.csv'', Csv_text (to_csv (setitem summary ''predicted_transactions'' ps) False)),
        (''model_params.json'', Json_text (save_model_params bgf))]"
    by (rule main_Download)
  from t assms(2) have "columns summary = [''frequency'', ''recency'', ''T'']"
    by (auto simp: transform_def andthen_Inr_iff)
  then have "columns (setitem summary ''predicted_transactions'' ps) =
      [''frequency'', ''recency'', ''T'', ''predicted_transactions'']"
    by (simp add: columns_setitem_fresh)
  then have "to_csv (setitem summary ''predicted_transactions'' ps) False =
      \<lparr>header = [''frequency'', ''recency'', ''T'', ''predicted_transactions''],
       records = transpose (map snd (cols (setitem summary ''predicted_transactions'' ps)))\<rparr>"
    by (simp add: to_csv_def)
  moreover have "save_model_params bgf =
      [(''params'', Dict (to_dict (params bgf))), (''penalizer_coef'', Scalar (Num penalizer))]"
    using train_model_penalizer [OF b] by (simp add: save_model_params_def)
  ultimately show ?thesis
    using a by simp
qed


lemma scenario_run:
  "\<exists>heat. main Inr parse_iso summary_data_from_transaction_data fit_example cef_example
       (Some upload_scenario) 0 60 =
     Inr (Download heat
       [(''predictions.csv'',
         Csv_text \<lparr>header = [''frequency'', ''recency'', ''T'', ''predicted_transactions''],
                   records = [[Num 1, Num 31, Num 31, Num (15 / 4)],
                              [Num 0, Num 0, Num 17, Num (10 / 3)]]\<rparr>),
        (''model_params.json'',
         Json_text [(''params'', Dict [(Name ''r'', Num 1), (Name ''alpha'', Num 2),
                                      (Name ''a'', Num 3), (Name ''b'', Num 4)]),
                    (''penalizer_coef'', Scalar (Num 0))])])"
  by (simp add: main_def scenario_ingestion scenario_summary andthen_def train_model_def
      getitem_def fit_example_def make_predictions_def setitem_def
      plot_frequency_recency_heatmap_def series_max_def int_of_float_def to_csv_def
      columns_def save_model_params_def to_dict_def)

theorem export_contents_witness:
  "\<exists>heat archive recs ps.
     main Inr parse_iso summary_data_from_transaction_data fit_example cef_example
       (Some upload_scenario) 0 60 = Inr (Download heat archive)
     \<and> archive =
         [(''predictions.csv'',
           Csv_text \<lparr>header = [''frequency'', ''recency'', ''T'', ''predicted_transactions''],
                     records = recs\<rparr>),
          (''model_params.json'',
           Json_text [(''params'', Dict ps), (''penalizer_coef'', Scalar (Num 0))])]"
proof -
  from scenario_run obtain heat archive where
    m: "main Inr parse_iso summary_data_from_transaction_data fit_example cef_example
          (Some upload_scenario) 0 60 = Inr (Download heat archive)"
    by blast
  have c: "\<forall>df c d e s. summary_data_from_transaction_data df c d e = Inr s \<longrightarrow>
      columns s = [''frequency'', ''recency'', ''T'']"
    using columns_summary by blast
  from export_contents [OF m c] m show ?thesis by blast
qed

text \<open>
  The run on the scenario upload: the header of \<^verbatim>\<open>predictions.csv\<close> has no column
  \<^verbatim>\<open>customer_id\<close>.
\<close>

theorem export_contents_counterexample:
  "exported (main Inr parse_iso summary_data_from_transaction_data fit_example cef_example
       (Some upload_scenario) 0 60) =
     [(''predictions.csv'',
       Csv_text \<lparr>header = [''frequency'', ''recency'', ''T'', ''predicted_transactions''],
                 records = [[Num 1, Num 31, Num 31, Num (15 / 4)],
                            [Num 0, Num 0, Num 17, Num (10 / 3)]]\<rparr>),
      (''model_params.json'',
       Json_text [(''params'', Dict [(Name ''r'', Num 1), (Name ''alpha'', Num 2),
                                    (Name ''a'', Num 3), (Name ''b'', Num 4)]),
                  (''penalizer_coef'', Scalar (Num 0))])]
   \<and> ''customer_id'' \<notin> set [''frequency'', ''recency'', ''T'', ''predicted_transactions'']"
proof -
  from scenario_run obtain heat where
    "main Inr parse_iso summary_data_from_transaction_data fit_example cef_example
       (Some upload_scenario) 0 60 =
     Inr (Download heat
       [(''predictions.csv'',
         Csv_text \<lparr>header = [''frequency'', ''recency'', ''T'', ''predicted_transactions''],
                   records = [[Num 1, Num 31, Num 31, Num (15 / 4)],
                              [Num 0, Num 0, Num 17, Num (10 / 3)]]\<rparr>),
        (''model_params.json'',
         Json_text [(''params'', Dict [(Name ''r'', Num 1), (Name ''alpha'', Num 2),
                                      (Name ''a'', Num 3), (Name ''b'', Num 4)]),
                    (''penalizer_coef'', Scalar (Num 0))])])"
    by blast
  then show ?thesis by (simp add: exported_def)
qed

lemma andthen_Inl: "r = Inl e \<Longrightarrow> andthen r k = Inl e"
  by (simp add: andthen_def)

text \<open>
  C10 (as amended). An exception raised in the body of the ingestion is caught: the
  run ends normally with the message \<^verbatim>\<open>Error loading data: ...\<close>. An exception raised
  by the summarization (or by taking the cutoff) or by the fit is not caught: it
  leaves \<^verbatim>\<open>main\<close>.
\<close>

theorem errors_caught_in_ingestion_only:
  "(load_try read_csv parse f = Inl e \<longrightarrow>
      main read_csv parse summarize fit cef (Some f) penalizer time_period =
        Inr (Load_error [''Error loading data: '' @ str e]))
   \<and> (load_try read_csv parse f = Inr sales_data \<and> transform summarize sales_data = Inl e \<longrightarrow>
      main read_csv parse summarize fit cef (Some f) penalizer time_period = Inl e)
   \<and> (load_try read_csv parse f = Inr sales_data \<and> transform summarize sales_data = Inr summary
        \<and> train_model fit summary (Scalar (Num penalizer)) = Inl e \<longrightarrow>
      main read_csv parse summarize fit cef (Some f) penalizer time_period = Inl e)"
  by (simp add: main_def load_and_preprocess_data_def andthen_def)

theorem errors_caught_in_ingestion_only_witness:
  "main Inr parse_iso summary_data_from_transaction_data fit_example cef_example
     (Some upload_bad_date) 0 60 =
     Inr (Load_error [''Error loading data: '' @ date_message])
   \<and> main Inr parse_iso summarize_failing fit_example cef_example (Some upload_scenario) 0 60 =
       Inl (LibraryError ''summary failed'')
   \<and> main Inr parse_iso summary_data_from_transaction_data fit_failing cef_example
       (Some upload_scenario) 0 60 = Inl (LibraryError ''ConvergenceError'')"
proof -
  have l: "load_try Inr parse_iso upload_scenario = Inr sales_scenario"
    using scenario_ingestion
    by (simp add: load_and_preprocess_data_def split: sum.splits)
  have b: "load_try Inr parse_iso upload_bad_date = Inl (ValueError date_message)"
    by (simp add: load_try_def upload_bad_date_def required_columns_def columns_def
        getitem_def setitem_def to_datetime_def parse_iso_def digit_def isnull_def)
  have s: "transform summarize_failing sales_scenario = Inl (LibraryError ''summary failed'')"
    by (simp add: transform_def summarize_failing_def sales_scenario_def getitem_def
        series_max_def andthen_def)
  have t: "train_model fit_failing
      \<lparr>index_name = Some ''customer_id'', index = [Str ''C1'', Str ''C2''],
       cols = [(''frequency'', [Num 1, Num 0]),
               (''recency'', [Num 31, Num 0]),
               (''T'', [Num 31, Num 17])]\<rparr> (Scalar (Num 0)) =
      Inl (LibraryError ''ConvergenceError'')"
    by (simp add: train_model_def fit_failing_def getitem_def andthen_def)
  show ?thesis
    using errors_caught_in_ingestion_only [of Inr parse_iso upload_bad_date
        "ValueError date_message" summary_data_from_transaction_data fit_example cef_example
        0 60]
      errors_caught_in_ingestion_only [of Inr parse_iso upload_scenario
        "LibraryError ''summary failed''" summarize_failing fit_example cef_example
        0 60 sales_scenario]
      errors_caught_in_ingestion_only [of Inr parse_iso upload_scenario
        "LibraryError ''ConvergenceError''" summary_data_from_transaction_data fit_failing
        cef_example 0 60 sales_scenario
        "\<lparr>index_name = Some ''customer_id'', index = [Str ''C1'', Str ''C2''],
          cols = [(''frequency'', [Num 1, Num 0]),
                  (''recency'', [Num 31, Num 0]),
                  (''T'', [Num 31, Num 17])]\<rparr>"]
      l b s t scenario_summary
    by simp
qed

text \<open>
  A fit that raises on the scenario upload: the exception leaves \<^verbatim>\<open>main\<close>.
\<close>

theorem errors_caught_counterexample:
  "main Inr parse_iso summary_data_from_transaction_data fit_failing cef_example
     (Some upload_scenario) 0 60 = Inl (LibraryError ''ConvergenceError'')"
  by (simp add: main_def scenario_ingestion scenario_summary andthen_def train_model_def
      getitem_def fit_failing_def)

end
